theory Spec2Isabelle
  imports Main
begin

section \<open>Shared data: users and JavaScript's \<open>||\<close> on strings\<close>

text \<open>
  A user object as the components read it: \<open>user.id\<close>, \<open>user.name\<close> and \<open>user.image\<close>.
  The id is a string and is always there; name and image may be \<open>undefined\<close>.
  Strict equality \<open>===\<close> on two strings is equality of their contents.
\<close>

record user =
  user_id :: string
  user_name :: "string option"
  user_image :: "string option"

text \<open>
  \<open>a || b\<close> where \<open>a\<close> is a string or \<open>undefined\<close> and \<open>b\<close> is a string: \<open>undefined\<close>
  and the empty string are falsy, every other string is truthy.
\<close>

definition js_or :: "string option \<Rightarrow> string \<Rightarrow> string" where
  "js_or a b = (case a of None \<Rightarrow> b | Some s \<Rightarrow> if s = [] then b else s)"

section \<open>The typing indicator (\<open>src/unnamed/part_000\<close>)\<close>

text \<open>
  \<open>props.typing\<close> is an object from keys to typing events \<open>{ user }\<close>; it is kept as the
  list of its own enumerable properties in enumeration order, the order in which
  \<open>Object.values\<close> lists them. \<open>props.client.user\<close> is the current user.
\<close>

record typing_event =
  ev_user :: user

record chat_client =
  client_user :: user

record typing_props =
  typing :: "(string \<times> typing_event) list"
  client :: chat_client

definition Object_values :: "(string \<times> 'a) list \<Rightarrow> 'a list" where
  "Object_values obj = map snd obj"

text \<open>
  The markup the component returns: a host element with its tag, its \<open>className\<close> and its
  children, or an \<open>Avatar\<close> element with the props \<open>image\<close>, \<open>size\<close>, \<open>name\<close> and \<open>key\<close>.
\<close>

datatype vnode =
    Elem string string "vnode list"
  | Avatar "string option" nat string string

text \<open>The local variable \<open>show\<close> of the component.\<close>

definition typing_show :: "typing_props \<Rightarrow> bool" where
  "typing_show props =
     (let typing = Object_values (typing props) in
      if length typing = 0 \<or>
         (length typing = 1 \<and>
          user_id (ev_user (typing ! 0)) = user_id (client_user (client props)))
      then False
      else True)"

definition typing_avatar :: "typing_event \<Rightarrow> vnode" where
  "typing_avatar ev =
     (let user = ev_user ev in
      Avatar (user_image user) 32 (js_or (user_name user) (user_id user)) (user_id user))"

definition TypingIndicator :: "typing_props \<Rightarrow> vnode" where
  "TypingIndicator props =
     (let typing = Object_values (typing props);
          show = typing_show props
      in Elem ''div''
           (''str-chat__typing-indicator '' @
              (if show then ''str-chat__typing-indicator--typing'' else ''''))
           [Elem ''div'' ''str-chat__typing-indicator__avatars''
              (map typing_avatar
                 (filter (\<lambda>ev. user_id (ev_user ev) \<noteq> user_id (client_user (client props)))
                    typing)),
            Elem ''div'' ''str-chat__typing-indicator__dots''
              [Elem ''span'' ''str-chat__typing-indicator__dot'' [],
               Elem ''span'' ''str-chat__typing-indicator__dot'' [],
               Elem ''span'' ''str-chat__typing-indicator__dot'' []]])"

text \<open>Counting the elements of a class, and the avatars, in a piece of markup.\<close>

fun count_class :: "string \<Rightarrow> vnode \<Rightarrow> nat" where
  "count_class c (Elem tg cls kids) =
     (if cls = c then 1 else 0) + sum_list (map (count_class c) kids)"
| "count_class c (Avatar img sz nm k) = 0"

fun count_avatars :: "vnode \<Rightarrow> nat" where
  "count_avatars (Elem tg cls kids) = sum_list (map count_avatars kids)"
| "count_avatars (Avatar img sz nm k) = 1"

text \<open>The users of a typing map other than the current one.\<close>

definition other_typing :: "typing_props \<Rightarrow> typing_event list" where
  "other_typing props =
     filter (\<lambda>ev. user_id (ev_user ev) \<noteq> user_id (client_user (client props)))
       (Object_values (typing props))"

section \<open>The context wrapper (\<open>src/src/context/ChatContext.js\<close>)\<close>

text \<open>
  An object of properties is a map from property names to values; the values stay
  abstract. The spread \<open>{ ...context, ...props }\<close> copies the properties of \<open>context\<close> and
  then those of \<open>props\<close>, so a later property overwrites an earlier one of the same name:
  this is \<open>context ++ props\<close> on maps.
\<close>

type_synonym 'v obj = "string \<rightharpoonup> 'v"

text \<open>
  A component carries the two properties the wrapper reads, \<open>displayName\<close> and \<open>name\<close>
  (each a string or \<open>undefined\<close>), and its body. The JSX element
  \<open>OriginalComponent {...mergedProps}\<close> is the element of that component with these
  attributes; what the React runtime does with an element afterwards is outside the
  repository.
\<close>

record 'f component =
  displayName :: "string option"
  name :: "string option"
  body :: 'f

datatype ('c, 'v) element = Element 'c "'v obj"

text \<open>
  \<open>s.replace(pat, rep)\<close> with a string pattern: the first occurrence of \<open>pat\<close> in \<open>s\<close>,
  wherever it stands, is replaced; a string without an occurrence is returned as it is.
  (The call site passes the empty replacement, which has no \<open>$\<close> patterns.)
\<close>

fun js_replace :: "string \<Rightarrow> string \<Rightarrow> string \<Rightarrow> string" where
  "js_replace [] pat rep = (if pat = [] then rep else [])"
| "js_replace (c # cs) pat rep =
     (if take (length pat) (c # cs) = pat then rep @ drop (length pat) (c # cs)
      else c # js_replace cs pat rep)"

text \<open>
  The function \<open>ContextComponent\<close>, given the value the consumer reads and the props of
  the caller.
\<close>

definition ContextComponent ::
    "'f component \<Rightarrow> 'v obj \<Rightarrow> 'v obj \<Rightarrow> ('f component, 'v) element" where
  "ContextComponent OriginalComponent context props =
     (let mergedProps = context ++ props
      in Element OriginalComponent mergedProps)"

text \<open>
  \<open>OriginalComponent.displayName || OriginalComponent.name || 'Component'\<close>; the value of
  \<open>(a || b) || c\<close> is that of \<open>a || (b || c)\<close>.
\<close>

definition base_name :: "'f component \<Rightarrow> string" where
  "base_name OriginalComponent =
     js_or (displayName OriginalComponent) (js_or (name OriginalComponent) ''Component'')"

definition withChatContext ::
    "'f component \<Rightarrow> ('v obj \<Rightarrow> 'v obj \<Rightarrow> ('f component, 'v) element) component" where
  "withChatContext OriginalComponent =
     (let ContextAwareComponent =
            \<lparr>displayName = None, name = Some ''ContextComponent'',
             body = ContextComponent OriginalComponent\<rparr>;
          ContextAwareComponent =
            ContextAwareComponent\<lparr>displayName := Some (base_name OriginalComponent)\<rparr>;
          ContextAwareComponent =
            ContextAwareComponent\<lparr>displayName :=
              (case displayName ContextAwareComponent of
                 None \<Rightarrow> None
               | Some s \<Rightarrow> Some (js_replace s ''Base'' ''''))\<rparr>
      in ContextAwareComponent)"

text \<open>\<open>s.indexOf(pat)\<close>: the first index at which \<open>pat\<close> occurs in \<open>s\<close>, if it occurs.\<close>

fun indexOf :: "string \<Rightarrow> string \<Rightarrow> nat option" where
  "indexOf [] pat = (if pat = [] then Some 0 else None)"
| "indexOf (c # cs) pat =
     (if take (length pat) (c # cs) = pat then Some 0
      else (case indexOf cs pat of None \<Rightarrow> None | Some i \<Rightarrow> Some (Suc i)))"

text \<open>
  The naming rule in the specification's words, for comparison: the suffix \<open>Base\<close> is
  stripped when the name ends in it, and the name is unchanged otherwise.
\<close>

definition spec_strip_suffix :: "string \<Rightarrow> string" where
  "spec_strip_suffix n =
     (if 4 \<le> length n \<and> drop (length n - 4) n = ''Base'' then take (length n - 4) n else n)"

section \<open>The commerce message component\<close>

text \<open>
  Modelled from the spec: the component \<open>MessageCommerce\<close> itself is not among the
  sources; its test suite (\<open>src/src/components/Message/__tests__/MessageCommerce.test.js\<close>)
  is. The message has the shape the specification lists (author, text, attachments,
  latest reactions, type, status, deletion timestamp, creation timestamp, reply count);
  the group style is one of the four positions of the glossary.
\<close>

datatype group_style = Top | Middle | Bottom | Single

record attachment =
  att_type :: string

record reaction =
  reaction_type :: string
  reaction_user :: user
  reaction_created_at :: nat

record message =
  msg_user :: user
  msg_text :: "string option"
  msg_attachments :: "attachment list"
  latest_reactions :: "reaction list"
  msg_type :: string
  msg_status :: string
  deleted_at :: "nat option"
  created_at :: nat
  reply_count :: nat

text \<open>
  Modelled from the spec: the props of one render (the component's declaration of them
  is missing): the message, the session with its current user, the group style hint, the caller's override for the deleted view (if any), and
  \<open>actions_permitted\<close>, which stands for every condition on action affordances that
  lies outside the message (the specification names none; the tests show that the
  channel configuration takes part).
\<close>

record 'c commerce_props =
  message :: message
  session :: chat_client
  groupStyle :: "group_style option"
  MessageDeleted :: "'c option"
  actions_permitted :: bool

text \<open>
  Modelled from the spec: the component's local, ephemeral state (its declaration is
  missing): whether the reaction selector is shown.
\<close>

record commerce_state =
  selector_shown :: bool

text \<open>
  Modelled from the spec: the local state of a freshly mounted component (its constructor
  is missing): the selector is hidden.
\<close>

definition initial_state :: commerce_state where
  "initial_state = \<lparr>selector_shown = False\<rparr>"

text \<open>
  Modelled from the spec: rendered markup (the component's markup is missing): an element
  with its test id, its class modifiers and its children; a
  text; the element of a caller-supplied component (opaque); the default deleted view
  (opaque: the specification does not describe it).
\<close>

datatype 'c node =
    Node string "string list" "'c node list"
  | Text string
  | Override 'c
  | DefaultDeleted

text \<open>
  All elements of the component's own markup that carry a given test id, outermost
  first. What a caller-supplied component or the default deleted view renders is not the
  component's own markup: the search does not look inside them.
\<close>

fun queryAllByTestId :: "string \<Rightarrow> 'c node \<Rightarrow> 'c node list" where
  "queryAllByTestId t (Node tid cls kids) =
     (if tid = t then [Node tid cls kids] else []) @ concat (map (queryAllByTestId t) kids)"
| "queryAllByTestId t (Text s) = []"
| "queryAllByTestId t (Override c) = []"
| "queryAllByTestId t DefaultDeleted = []"

text \<open>The same over what a render returns, where \<open>None\<close> is the empty output.\<close>

definition queryAll :: "string \<Rightarrow> 'c node option \<Rightarrow> 'c node list" where
  "queryAll t out = (case out of None \<Rightarrow> [] | Some n \<Rightarrow> queryAllByTestId t n)"

text \<open>
  Modelled from the spec: presence of text (the component's own test of it is missing).
  A message has text when its text is a non-empty string.
\<close>

definition hasText :: "message \<Rightarrow> bool" where
  "hasText m = (case msg_text m of None \<Rightarrow> False | Some t \<Rightarrow> t \<noteq> [])"

text \<open>
  Modelled from the spec: presence of attachments (the component's own test of it is
  missing): the list is non-empty.
\<close>

definition hasAttachment :: "message \<Rightarrow> bool" where
  "hasAttachment m = (msg_attachments m \<noteq> [])"

text \<open>
  Modelled from the spec: presence of reactions (the component's own test of it is
  missing): the list is non-empty.
\<close>

definition hasReactions :: "message \<Rightarrow> bool" where
  "hasReactions m = (latest_reactions m \<noteq> [])"

text \<open>
  Modelled from the spec: whether the message author matches the current session user
  (the component's own test is missing); users are matched by id.
\<close>

definition isMine :: "'c commerce_props \<Rightarrow> bool" where
  "isMine props = (user_id (msg_user (message props)) = user_id (client_user (session props)))"

text \<open>
  Modelled from the spec: non-content message kinds (read receipts, date separators),
  for which all output is suppressed.
\<close>

definition nonContent :: "message \<Rightarrow> bool" where
  "nonContent m = (msg_type m = ''message.read'' \<or> msg_type m = ''message.date'')"

text \<open>
  Modelled from the spec: the class modifier of a group style (the component's markup is
  missing), named as the tests look for it.
\<close>

fun group_class :: "group_style \<Rightarrow> string" where
  "group_class Top = ''top''"
| "group_class Middle = ''middle''"
| "group_class Bottom = ''bottom''"
| "group_class Single = ''single''"

text \<open>
  Modelled from the spec: the class modifiers of the wrapper (the component's markup is
  missing): alignment by authorship, text, attachment and reaction presence, group style.
  The modifier names are those the tests look for.
\<close>

definition wrapper_classes :: "'c commerce_props \<Rightarrow> string list" where
  "wrapper_classes props =
     (let m = message props in
      [if isMine props then ''--right'' else ''--left'',
       if hasText m then ''--has-text'' else ''--has-no-text'']
      @ (if hasAttachment m then [''--has-attachment''] else [])
      @ (if hasReactions m then [''--with-reactions''] else [])
      @ (case groupStyle props of None \<Rightarrow> [] | Some g \<Rightarrow> [group_class g]))"

text \<open>
  Modelled from the spec: the avatar, present for the last message of a run (group
  styles bottom and single, as the tests have it).
\<close>

definition renderAvatar :: "'c commerce_props \<Rightarrow> 'c node list" where
  "renderAvatar props =
     (let user = msg_user (message props) in
      if groupStyle props = Some Bottom \<or> groupStyle props = Some Single
      then [Node ''avatar'' [] [Text (js_or (user_name user) (user_id user))]]
      else [])"

text \<open>
  Modelled from the spec: action affordances, suppressed for error, system and ephemeral
  messages and for the delivery statuses sending and failed.
\<close>

definition renderOptions :: "'c commerce_props \<Rightarrow> 'c node list" where
  "renderOptions props =
     (let m = message props in
      if msg_type m = ''error'' \<or> msg_type m = ''system'' \<or> msg_type m = ''ephemeral'' \<or>
         msg_status m = ''sending'' \<or> msg_status m = ''failed''
      then []
      else if actions_permitted props then [Node ''message-commerce-actions'' [] []]
      else [])"

text \<open>
  Modelled from the spec: attachments, a gallery when all are of image type, individual
  file entries otherwise.
\<close>

definition renderAttachments :: "message \<Rightarrow> 'c node list" where
  "renderAttachments m =
     (if msg_attachments m = [] then []
      else if list_all (\<lambda>a. att_type a = ''image'') (msg_attachments m)
      then [Node ''gallery'' [] (map (\<lambda>a. Node ''gallery-image'' [] []) (msg_attachments m))]
      else map (\<lambda>a. Node ''attachment-file'' [] []) (msg_attachments m))"

text \<open>Modelled from the spec: the text block, present when the message has text.\<close>

definition renderText :: "message \<Rightarrow> 'c node list" where
  "renderText m =
     (case msg_text m of
        None \<Rightarrow> []
      | Some t \<Rightarrow>
          if t = [] then []
          else [Node ''message-commerce-text-inner-wrapper''
                  (if hasAttachment m then [''--has-attachment''] else []) [Text t]])"

text \<open>
  Modelled from the spec: the reaction block. The compact summary renders when the
  message has at least one reaction, the full selector when the local state says so.
\<close>

definition renderReactions :: "message \<Rightarrow> commerce_state \<Rightarrow> 'c node list" where
  "renderReactions m st =
     (if latest_reactions m \<noteq> [] then [Node ''reaction-list'' [] []] else [])
     @ (if selector_shown st then [Node ''reaction-selector'' [] []] else [])"

text \<open>
  Modelled from the spec: the render function of the commerce message (the component's
  code is missing): no output for a non-content kind; the deleted view alone, the caller's
  override when there is one, for a message with a deletion timestamp; the wrapper with
  the normal content otherwise. The specification does not say which of the two gates
  wins for a message that is both of a non-content kind and deleted; the model takes them
  in the order of the specification's list, so that its sentence on non-content kinds
  holds for every message. Reply count, timestamp and the mention callbacks are left out.
\<close>

definition MessageCommerce :: "'c commerce_props \<Rightarrow> commerce_state \<Rightarrow> 'c node option" where
  "MessageCommerce props st =
     (let m = message props in
      if nonContent m then None
      else if deleted_at m \<noteq> None
      then Some (case MessageDeleted props of Some c \<Rightarrow> Override c | None \<Rightarrow> DefaultDeleted)
      else Some (Node ''message-commerce-wrapper'' (wrapper_classes props)
                   (renderAvatar props @ renderOptions props @ renderAttachments m
                    @ renderText m @ renderReactions m st)))"

text \<open>
  Modelled from the spec: a click on the reaction summary reveals the selector. The click
  needs the summary to be in the output (\<open>None\<close> when it is not); it changes the local
  state only.
\<close>

definition click_reaction_list ::
    "'c commerce_props \<Rightarrow> commerce_state \<Rightarrow> commerce_state option" where
  "click_reaction_list props st =
     (if queryAll ''reaction-list'' (MessageCommerce props st) = [] then None
      else Some (st\<lparr>selector_shown := True\<rparr>))"

text \<open>
  The users and messages of the test suite. The builders \<open>generateUser\<close> and
  \<open>generateMessage\<close> are not among the sources: the users get their names as ids, and a
  generated message is an ordinary received message with a text, the fields the tests
  pass being set by record update. \<open>renderProps\<close> renders for Alice's session, as
  \<open>renderMessageCommerce\<close> does.
\<close>

definition alice :: user where
  "alice = \<lparr>user_id = ''alice'', user_name = Some ''alice'', user_image = Some ''alice-avatar.jpg''\<rparr>"

definition bob :: user where
  "bob = \<lparr>user_id = ''bob'', user_name = Some ''bob'', user_image = Some ''bob-avatar.jpg''\<rparr>"

definition bobReaction :: reaction where
  "bobReaction = \<lparr>reaction_type = ''love'', reaction_user = bob, reaction_created_at = 0\<rparr>"

definition generateMessage :: "user \<Rightarrow> message" where
  "generateMessage u =
     \<lparr>msg_user = u, msg_text = Some ''hello world'', msg_attachments = [],
      latest_reactions = [], msg_type = ''regular'', msg_status = ''received'',
      deleted_at = None, created_at = 0, reply_count = 0\<rparr>"

definition renderProps :: "message \<Rightarrow> unit commerce_props" where
  "renderProps m =
     \<lparr>message = m, session = \<lparr>client_user = alice\<rparr>, groupStyle = None,
      MessageDeleted = None, actions_permitted = False\<rparr>"

text \<open>
  Messages for the examples: a read receipt and a deleted message that each carry a
  reaction, a message with a reaction and no text, and a message that failed to send.
\<close>

definition readReceipt :: message where
  "readReceipt = (generateMessage alice)\<lparr>msg_type := ''message.read'', latest_reactions := [bobReaction]\<rparr>"

definition deletedMessage :: message where
  "deletedMessage = (generateMessage alice)\<lparr>deleted_at := Some 1, latest_reactions := [bobReaction]\<rparr>"

definition reactedMessage :: message where
  "reactedMessage = (generateMessage alice)\<lparr>latest_reactions := [bobReaction], msg_text := None\<rparr>"

definition failedMessage :: message where
  "failedMessage = (generateMessage alice)\<lparr>msg_status := ''failed'', msg_text := None\<rparr>"

section \<open>Properties of the typing indicator\<close>

lemma count_class_avatars: "sum_list (map (count_class c \<circ> typing_avatar) evs) = 0"
  by (induction evs) (simp_all add: typing_avatar_def Let_def)

lemma count_avatars_avatars:
  "sum_list (map (count_avatars \<circ> typing_avatar) evs) = length evs"
  by (induction evs) (simp_all add: typing_avatar_def Let_def)

text \<open>
  C1. The computed visibility is false exactly when the typing map is empty or its only
  entry is the current user, matched by user id; for every other map it is true.
\<close>

theorem typing_show_false_iff:
  "typing_show props = False \<longleftrightarrow>
     (typing props = [] \<or>
      (\<exists>k ev. typing props = [(k, ev)] \<and>
               user_id (ev_user ev) = user_id (client_user (client props))))"
proof (cases "typing props")
  case Nil
  then show ?thesis by (simp add: typing_show_def Object_values_def)
next
  case (Cons e es)
  show ?thesis
  proof (cases es)
    case Nil
    with Cons show ?thesis
      by (cases e) (simp add: typing_show_def Object_values_def)
  next
    case (Cons e' es')
    with \<open>typing props = e # es\<close> show ?thesis
      by (simp add: typing_show_def Object_values_def)
  qed
qed

theorem typing_show_false_iff_witness:
  "typing_show \<lparr>typing = [], client = \<lparr>client_user = alice\<rparr>\<rparr> = False
   \<and> typing_show \<lparr>typing = [(''alice'', \<lparr>ev_user = alice\<rparr>)],
                    client = \<lparr>client_user = alice\<rparr>\<rparr> = False
   \<and> typing_show \<lparr>typing = [(''bob'', \<lparr>ev_user = bob\<rparr>)],
                    client = \<lparr>client_user = alice\<rparr>\<rparr> = True
   \<and> typing_show \<lparr>typing = [(''alice'', \<lparr>ev_user = alice\<rparr>), (''bob'', \<lparr>ev_user = bob\<rparr>)],
                    client = \<lparr>client_user = alice\<rparr>\<rparr> = True"
  using typing_show_false_iff[of "\<lparr>typing = [], client = \<lparr>client_user = alice\<rparr>\<rparr>"]
    typing_show_false_iff[of "\<lparr>typing = [(''alice'', \<lparr>ev_user = alice\<rparr>)],
                    client = \<lparr>client_user = alice\<rparr>\<rparr>"]
    typing_show_false_iff[of "\<lparr>typing = [(''bob'', \<lparr>ev_user = bob\<rparr>)],
                    client = \<lparr>client_user = alice\<rparr>\<rparr>"]
    typing_show_false_iff[of "\<lparr>typing = [(''alice'', \<lparr>ev_user = alice\<rparr>), (''bob'', \<lparr>ev_user = bob\<rparr>)],
                    client = \<lparr>client_user = alice\<rparr>\<rparr>"]
  by (simp add: alice_def bob_def)

text \<open>
  The same visibility for a well-formed map, one whose entries carry pairwise different
  user ids: the indicator is hidden exactly when nobody besides the current user is typing.
\<close>

lemma typing_show_iff_others:
  assumes "distinct (map (user_id \<circ> ev_user) (Object_values (typing props)))"
  shows "typing_show props \<longleftrightarrow> other_typing props \<noteq> []"
proof (cases "typing props")
  case Nil
  then show ?thesis by (simp add: typing_show_def other_typing_def Object_values_def)
next
  case (Cons e es)
  show ?thesis
  proof (cases es)
    case Nil
    with Cons show ?thesis
      by (simp add: typing_show_def other_typing_def Object_values_def)
  next
    case (Cons e' es')
    with \<open>typing props = e # es\<close> assms show ?thesis
      by (auto simp: typing_show_def other_typing_def Object_values_def)
  qed
qed

lemma TypingIndicator_eq:
  "TypingIndicator props =
     Elem ''div''
       (if typing_show props
        then ''str-chat__typing-indicator str-chat__typing-indicator--typing''
        else ''str-chat__typing-indicator '')
       [Elem ''div'' ''str-chat__typing-indicator__avatars''
          (map typing_avatar (other_typing props)),
        Elem ''div'' ''str-chat__typing-indicator__dots''
          [Elem ''span'' ''str-chat__typing-indicator__dot'' [],
           Elem ''span'' ''str-chat__typing-indicator__dot'' [],
           Elem ''span'' ''str-chat__typing-indicator__dot'' []]]"
  by (simp add: TypingIndicator_def other_typing_def Let_def)

text \<open>
  The avatars, read off the typing map itself: the entries are taken in the map's order,
  those of the current user are dropped, and each remaining entry gives one avatar with
  the user's image, the size 32, the user's name (the id when the name is missing or
  empty) and the id as key.
\<close>

lemma other_typing_input:
  "other_typing props =
     map snd (filter (\<lambda>(k, ev). user_id (ev_user ev) \<noteq> user_id (client_user (client props)))
                (typing props))"
  by (simp add: other_typing_def Object_values_def filter_map comp_def case_prod_unfold)

lemma typing_avatar_input:
  "map typing_avatar (map snd kvs) =
     map (\<lambda>(k, ev). Avatar (user_image (ev_user ev)) 32
            (case user_name (ev_user ev) of
               None \<Rightarrow> user_id (ev_user ev)
             | Some n \<Rightarrow> if n = [] then user_id (ev_user ev) else n)
            (user_id (ev_user ev))) kvs"
  by (simp add: typing_avatar_def js_or_def Let_def case_prod_unfold)

text \<open>
  C10. The rendered output is never empty: it is always the indicator container holding
  the avatar block, with exactly one avatar per entry of the typing map whose user id
  differs from the current user's id, and the dots block with exactly three dot elements.
  The computed visibility only chooses the container's class; the children do not
  depend on it.
\<close>

theorem TypingIndicator_markup:
  "TypingIndicator props =
     Elem ''div''
       (if typing_show props
        then ''str-chat__typing-indicator str-chat__typing-indicator--typing''
        else ''str-chat__typing-indicator '')
       [Elem ''div'' ''str-chat__typing-indicator__avatars''
          (map (\<lambda>(k, ev). Avatar (user_image (ev_user ev)) 32
                  (case user_name (ev_user ev) of
                     None \<Rightarrow> user_id (ev_user ev)
                   | Some n \<Rightarrow> if n = [] then user_id (ev_user ev) else n)
                  (user_id (ev_user ev)))
             (filter (\<lambda>(k, ev). user_id (ev_user ev) \<noteq> user_id (client_user (client props)))
                (typing props))),
        Elem ''div'' ''str-chat__typing-indicator__dots''
          [Elem ''span'' ''str-chat__typing-indicator__dot'' [],
           Elem ''span'' ''str-chat__typing-indicator__dot'' [],
           Elem ''span'' ''str-chat__typing-indicator__dot'' []]]
   \<and> count_avatars (TypingIndicator props) =
       length (filter (\<lambda>(k, ev). user_id (ev_user ev) \<noteq> user_id (client_user (client props)))
                 (typing props))
   \<and> count_class ''str-chat__typing-indicator__dot'' (TypingIndicator props) = 3
   \<and> count_class ''str-chat__typing-indicator__avatars'' (TypingIndicator props) = 1
   \<and> count_class ''str-chat__typing-indicator__dots'' (TypingIndicator props) = 1"
proof (intro conjI)
  show "TypingIndicator props =
     Elem ''div''
       (if typing_show props
        then ''str-chat__typing-indicator str-chat__typing-indicator--typing''
        else ''str-chat__typing-indicator '')
       [Elem ''div'' ''str-chat__typing-indicator__avatars''
          (map (\<lambda>(k, ev). Avatar (user_image (ev_user ev)) 32
                  (case user_name (ev_user ev) of
                     None \<Rightarrow> user_id (ev_user ev)
                   | Some n \<Rightarrow> if n = [] then user_id (ev_user ev) else n)
                  (user_id (ev_user ev)))
             (filter (\<lambda>(k, ev). user_id (ev_user ev) \<noteq> user_id (client_user (client props)))
                (typing props))),
        Elem ''div'' ''str-chat__typing-indicator__dots''
          [Elem ''span'' ''str-chat__typing-indicator__dot'' [],
           Elem ''span'' ''str-chat__typing-indicator__dot'' [],
           Elem ''span'' ''str-chat__typing-indicator__dot'' []]]"
    unfolding TypingIndicator_eq other_typing_input typing_avatar_input by (rule refl)
  show "count_avatars (TypingIndicator props) =
       length (filter (\<lambda>(k, ev). user_id (ev_user ev) \<noteq> user_id (client_user (client props)))
                 (typing props))"
  proof -
    have "count_avatars (TypingIndicator props) = length (other_typing props)"
      by (simp add: TypingIndicator_eq count_avatars_avatars del: sum_list_eq_0_iff)
    also have "\<dots> = length (filter (\<lambda>(k, ev). user_id (ev_user ev) \<noteq> user_id (client_user (client props)))
                 (typing props))"
      by (simp add: other_typing_input)
    finally show ?thesis .
  qed
  show "count_class ''str-chat__typing-indicator__dot'' (TypingIndicator props) = 3"
    by (simp add: TypingIndicator_eq count_class_avatars del: sum_list_eq_0_iff)
  show "count_class ''str-chat__typing-indicator__avatars'' (TypingIndicator props) = 1"
    by (simp add: TypingIndicator_eq count_class_avatars del: sum_list_eq_0_iff)
  show "count_class ''str-chat__typing-indicator__dots'' (TypingIndicator props) = 1"
    by (simp add: TypingIndicator_eq count_class_avatars del: sum_list_eq_0_iff)
qed

theorem TypingIndicator_markup_witness:
  "TypingIndicator \<lparr>typing = [(''alice'', \<lparr>ev_user = alice\<rparr>), (''bob'', \<lparr>ev_user = bob\<rparr>)],
                    client = \<lparr>client_user = alice\<rparr>\<rparr> =
     Elem ''div'' ''str-chat__typing-indicator str-chat__typing-indicator--typing''
       [Elem ''div'' ''str-chat__typing-indicator__avatars''
          [Avatar (Some ''bob-avatar.jpg'') 32 ''bob'' ''bob''],
        Elem ''div'' ''str-chat__typing-indicator__dots''
          [Elem ''span'' ''str-chat__typing-indicator__dot'' [],
           Elem ''span'' ''str-chat__typing-indicator__dot'' [],
           Elem ''span'' ''str-chat__typing-indicator__dot'' []]]
   \<and> TypingIndicator \<lparr>typing = [(''alice'', \<lparr>ev_user = alice\<rparr>)],
                    client = \<lparr>client_user = alice\<rparr>\<rparr> =
     Elem ''div'' ''str-chat__typing-indicator ''
       [Elem ''div'' ''str-chat__typing-indicator__avatars'' [],
        Elem ''div'' ''str-chat__typing-indicator__dots''
          [Elem ''span'' ''str-chat__typing-indicator__dot'' [],
           Elem ''span'' ''str-chat__typing-indicator__dot'' [],
           Elem ''span'' ''str-chat__typing-indicator__dot'' []]]
   \<and> TypingIndicator
         \<lparr>typing = [(''bob'', \<lparr>ev_user = bob\<rparr>),
                    (''carol'', \<lparr>ev_user = \<lparr>user_id = ''carol'', user_name = None, user_image = None\<rparr>\<rparr>),
                    (''alice'', \<lparr>ev_user = alice\<rparr>),
                    (''dave'', \<lparr>ev_user = \<lparr>user_id = ''dave'', user_name = Some '''', user_image = None\<rparr>\<rparr>)],
          client = \<lparr>client_user = alice\<rparr>\<rparr> =
     Elem ''div'' ''str-chat__typing-indicator str-chat__typing-indicator--typing''
       [Elem ''div'' ''str-chat__typing-indicator__avatars''
          [Avatar (Some ''bob-avatar.jpg'') 32 ''bob'' ''bob'',
           Avatar None 32 ''carol'' ''carol'',
           Avatar None 32 ''dave'' ''dave''],
        Elem ''div'' ''str-chat__typing-indicator__dots''
          [Elem ''span'' ''str-chat__typing-indicator__dot'' [],
           Elem ''span'' ''str-chat__typing-indicator__dot'' [],
           Elem ''span'' ''str-chat__typing-indicator__dot'' []]]
   \<and> count_avatars (TypingIndicator
         \<lparr>typing = [(''bob'', \<lparr>ev_user = bob\<rparr>),
                    (''carol'', \<lparr>ev_user = \<lparr>user_id = ''carol'', user_name = None, user_image = None\<rparr>\<rparr>),
                    (''alice'', \<lparr>ev_user = alice\<rparr>),
                    (''dave'', \<lparr>ev_user = \<lparr>user_id = ''dave'', user_name = Some '''', user_image = None\<rparr>\<rparr>)],
          client = \<lparr>client_user = alice\<rparr>\<rparr>) = 3"
  using TypingIndicator_markup[of "\<lparr>typing = [(''alice'', \<lparr>ev_user = alice\<rparr>), (''bob'', \<lparr>ev_user = bob\<rparr>)],
                    client = \<lparr>client_user = alice\<rparr>\<rparr>"]
    TypingIndicator_markup[of "\<lparr>typing = [(''alice'', \<lparr>ev_user = alice\<rparr>)],
                    client = \<lparr>client_user = alice\<rparr>\<rparr>"]
    TypingIndicator_markup[of "\<lparr>typing = [(''bob'', \<lparr>ev_user = bob\<rparr>),
                    (''carol'', \<lparr>ev_user = \<lparr>user_id = ''carol'', user_name = None, user_image = None\<rparr>\<rparr>),
                    (''alice'', \<lparr>ev_user = alice\<rparr>),
                    (''dave'', \<lparr>ev_user = \<lparr>user_id = ''dave'', user_name = Some '''', user_image = None\<rparr>\<rparr>)],
          client = \<lparr>client_user = alice\<rparr>\<rparr>"]
  by (simp add: typing_show_def Object_values_def alice_def bob_def)

section \<open>Properties of the context wrapper\<close>

text \<open>
  C2. The wrapping component renders the wrapped component with the shallow merge of
  context and props: on a key both have, the value of the props wins; a key only one of
  them has keeps its value; no other key appears.
\<close>

theorem withChatContext_merge:
  "\<exists>mergedProps.
     body (withChatContext OriginalComponent) context props =
       Element OriginalComponent mergedProps
     \<and> (\<forall>key. (key \<in> dom props \<longrightarrow> mergedProps key = props key)
             \<and> (key \<notin> dom props \<longrightarrow> mergedProps key = context key))
     \<and> dom mergedProps = dom context \<union> dom props"
proof -
  have "body (withChatContext OriginalComponent) context props =
          Element OriginalComponent (context ++ props)"
    by (simp add: withChatContext_def ContextComponent_def Let_def)
  moreover have "\<forall>key. (key \<in> dom props \<longrightarrow> (context ++ props) key = props key)
             \<and> (key \<notin> dom props \<longrightarrow> (context ++ props) key = context key)"
    by (auto simp: map_add_dom_app_simps)
  moreover have "dom (context ++ props) = dom context \<union> dom props"
    by auto
  ultimately show ?thesis by blast
qed

theorem withChatContext_merge_witness:
  "\<exists>mergedProps.
     body (withChatContext \<lparr>displayName = None, name = Some ''MessageSimpleBase'', body = ()\<rparr>)
       [''client'' \<mapsto> (1::nat), ''theme'' \<mapsto> 2] [''theme'' \<mapsto> 3, ''message'' \<mapsto> 4]
     = Element \<lparr>displayName = None, name = Some ''MessageSimpleBase'', body = ()\<rparr> mergedProps
     \<and> mergedProps ''theme'' = Some 3 \<and> mergedProps ''client'' = Some 1
     \<and> mergedProps ''message'' = Some 4 \<and> mergedProps ''channel'' = None"
  using withChatContext_merge[of "\<lparr>displayName = None, name = Some ''MessageSimpleBase'', body = ()\<rparr>"
      "[''client'' \<mapsto> (1::nat), ''theme'' \<mapsto> 2]" "[''theme'' \<mapsto> 3, ''message'' \<mapsto> 4]"]
  by (auto simp: dom_def)

text \<open>
  What \<open>replace\<close> computes, by the first index of the pattern: the string is cut at the
  first occurrence and the replacement is put in its place.
\<close>

lemma js_replace_indexOf:
  "js_replace s pat rep =
     (case indexOf s pat of None \<Rightarrow> s | Some i \<Rightarrow> take i s @ rep @ drop (i + length pat) s)"
  by (induction s) (auto split: option.splits)

lemma indexOf_Some:
  "indexOf s pat = Some i \<Longrightarrow>
     take (length pat) (drop i s) = pat \<and> (\<forall>j<i. take (length pat) (drop j s) \<noteq> pat)"
proof (induction s arbitrary: i)
  case Nil
  then show ?case by (auto split: if_splits)
next
  case (Cons c cs)
  show ?case
  proof (cases "take (length pat) (c # cs) = pat")
    case True
    with Cons.prems show ?thesis by simp
  next
    case False
    with Cons.prems obtain i' where i': "indexOf cs pat = Some i'" "i = Suc i'"
      by (auto split: option.splits)
    from Cons.IH[OF i'(1)] have IH: "take (length pat) (drop i' cs) = pat"
      "\<forall>j<i'. take (length pat) (drop j cs) \<noteq> pat" by auto
    have "\<forall>j<i. take (length pat) (drop j (c # cs)) \<noteq> pat"
    proof (intro allI impI)
      fix j assume "j < i"
      show "take (length pat) (drop j (c # cs)) \<noteq> pat"
      proof (cases j)
        case 0
        with False show ?thesis by simp
      next
        case (Suc j')
        with \<open>j < i\<close> i'(2) IH(2) show ?thesis by simp
      qed
    qed
    with IH(1) i'(2) show ?thesis by simp
  qed
qed

lemma indexOf_None:
  "indexOf s pat = None \<Longrightarrow> take (length pat) (drop j s) \<noteq> pat"
proof (induction s arbitrary: j)
  case Nil
  then show ?case by (auto split: if_splits)
next
  case (Cons c cs)
  then show ?case by (cases j) (auto split: if_splits option.splits)
qed

lemma displayName_withChatContext:
  "displayName (withChatContext OriginalComponent) =
     Some (js_replace (base_name OriginalComponent) ''Base'' '''')"
  by (simp add: withChatContext_def Let_def)

text \<open>
  C3, as the code has it. Let the base name be the wrapped component's \<open>displayName\<close>
  when that is a non-empty string, else its \<open>name\<close> when that is a non-empty string,
  else \<open>Component\<close>. The debugging name of the returned component is the base name with
  the first occurrence of \<open>Base\<close> removed wherever it stands: a base name in which
  \<open>Base\<close> does not occur is unchanged, and one whose first occurrence of \<open>Base\<close> is its
  suffix loses that suffix.
\<close>

theorem withChatContext_displayName:
  fixes OriginalComponent :: "'f component"
  defines "n \<equiv>
     (case displayName OriginalComponent of
        Some d \<Rightarrow>
          if d \<noteq> [] then d
          else (case name OriginalComponent of
                  Some m \<Rightarrow> if m \<noteq> [] then m else ''Component''
                | None \<Rightarrow> ''Component'')
      | None \<Rightarrow>
          (case name OriginalComponent of
             Some m \<Rightarrow> if m \<noteq> [] then m else ''Component''
           | None \<Rightarrow> ''Component''))"
  defines "d \<equiv> displayName
     (withChatContext OriginalComponent :: ('v obj \<Rightarrow> 'v obj \<Rightarrow> ('f component, 'v) element) component)"
  shows
  "(indexOf n ''Base'' = None \<longrightarrow> d = Some n \<and> (\<forall>j. take (length ''Base'') (drop j n) \<noteq> ''Base''))
   \<and> (\<forall>i. indexOf n ''Base'' = Some i \<longrightarrow>
         d = Some (take i n @ drop (i + length ''Base'') n)
         \<and> take (length ''Base'') (drop i n) = ''Base''
         \<and> (\<forall>j<i. take (length ''Base'') (drop j n) \<noteq> ''Base''))"
proof (intro conjI allI impI)
  have n: "n = base_name OriginalComponent"
    unfolding n_def base_name_def js_or_def by (simp split: option.splits)
  {
    assume none: "indexOf n ''Base'' = None"
    then show "d = Some n"
      unfolding d_def n by (simp add: displayName_withChatContext js_replace_indexOf)
    fix j from indexOf_None[OF none]
    show "take (length ''Base'') (drop j n) \<noteq> ''Base''" by blast
  }
  {
    fix i assume i: "indexOf n ''Base'' = Some i"
    then show "d = Some (take i n @ drop (i + length ''Base'') n)"
      unfolding d_def n by (simp add: displayName_withChatContext js_replace_indexOf)
    from indexOf_Some[OF i]
    show "take (length ''Base'') (drop i n) = ''Base''" by blast
    fix j assume "j < i"
    with indexOf_Some[OF i]
    show "take (length ''Base'') (drop j n) \<noteq> ''Base''" by blast
  }
qed

theorem withChatContext_displayName_witness:
  "displayName (withChatContext \<lparr>displayName = Some ''MessageSimpleBase'', name = Some ''InnerBase'', body = ()\<rparr>
        :: (unit obj \<Rightarrow> unit obj \<Rightarrow> (unit component, unit) element) component) = Some ''MessageSimple''
   \<and> displayName (withChatContext \<lparr>displayName = Some '''', name = Some ''ChannelListBase'', body = ()\<rparr>
        :: (unit obj \<Rightarrow> unit obj \<Rightarrow> (unit component, unit) element) component) = Some ''ChannelList''
   \<and> displayName (withChatContext \<lparr>displayName = None, name = Some ''Avatar'', body = ()\<rparr>
        :: (unit obj \<Rightarrow> unit obj \<Rightarrow> (unit component, unit) element) component) = Some ''Avatar''
   \<and> displayName (withChatContext \<lparr>displayName = None, name = Some '''', body = ()\<rparr>
        :: (unit obj \<Rightarrow> unit obj \<Rightarrow> (unit component, unit) element) component) = Some ''Component''
   \<and> displayName (withChatContext \<lparr>displayName = Some ''MyBaseFooBase'', name = None, body = ()\<rparr>
        :: (unit obj \<Rightarrow> unit obj \<Rightarrow> (unit component, unit) element) component) = Some ''MyFooBase''"
  using
    withChatContext_displayName[where ?'v = unit,
      of "\<lparr>displayName = Some ''MessageSimpleBase'', name = Some ''InnerBase'', body = ()\<rparr>"]
    withChatContext_displayName[where ?'v = unit,
      of "\<lparr>displayName = Some '''', name = Some ''ChannelListBase'', body = ()\<rparr>"]
    withChatContext_displayName[where ?'v = unit,
      of "\<lparr>displayName = None, name = Some ''Avatar'', body = ()\<rparr>"]
    withChatContext_displayName[where ?'v = unit,
      of "\<lparr>displayName = None, name = Some '''', body = ()\<rparr>"]
    withChatContext_displayName[where ?'v = unit,
      of "\<lparr>displayName = Some ''MyBaseFooBase'', name = None, body = ()\<rparr>"]
  by simp

text \<open>
  C3 as the specification words it fails: \<open>BaseButton\<close> does not end in \<open>Base\<close>, so the
  suffix rule leaves it unchanged, but the code names the wrapper \<open>Button\<close>.
\<close>

theorem withChatContext_displayName_counterexample:
  "displayName (withChatContext \<lparr>displayName = None, name = Some ''BaseButton'', body = ()\<rparr>
        :: (unit obj \<Rightarrow> unit obj \<Rightarrow> (unit component, unit) element) component) = Some ''Button''
   \<and> spec_strip_suffix ''BaseButton'' = ''BaseButton''
   \<and> displayName (withChatContext \<lparr>displayName = None, name = Some ''BaseButton'', body = ()\<rparr>
        :: (unit obj \<Rightarrow> unit obj \<Rightarrow> (unit component, unit) element) component)
       \<noteq> Some (spec_strip_suffix ''BaseButton'')"
  by (simp add: withChatContext_def Let_def base_name_def js_or_def spec_strip_suffix_def)

section \<open>Properties of the commerce message\<close>

text \<open>What a query by test id finds in each part of the markup.\<close>

lemma query_renderAvatar:
  "t \<noteq> ''avatar'' \<Longrightarrow> concat (map (queryAllByTestId t) (renderAvatar props)) = []"
  by (simp add: renderAvatar_def Let_def)

lemma query_renderOptions:
  "t \<noteq> ''message-commerce-actions'' \<Longrightarrow>
     concat (map (queryAllByTestId t) (renderOptions props)) = []"
  by (simp add: renderOptions_def Let_def)

lemma query_file_entries:
  "t \<noteq> ''attachment-file'' \<Longrightarrow>
     concat (map (queryAllByTestId t) (map (\<lambda>a. Node ''attachment-file'' [] []) as)) = []"
  by (induction as) simp_all

lemma query_gallery_images:
  "t \<noteq> ''gallery-image'' \<Longrightarrow>
     concat (map (queryAllByTestId t) (map (\<lambda>a. Node ''gallery-image'' [] []) as)) = []"
  by (induction as) simp_all

lemma query_renderAttachments:
  "t \<noteq> ''attachment-file'' \<Longrightarrow> t \<noteq> ''gallery-image'' \<Longrightarrow> t \<noteq> ''gallery'' \<Longrightarrow>
     concat (map (queryAllByTestId t) (renderAttachments m)) = []"
  unfolding renderAttachments_def
  by (simp add: query_file_entries query_gallery_images del: map_map)

lemma query_renderText:
  "t \<noteq> ''message-commerce-text-inner-wrapper'' \<Longrightarrow>
     concat (map (queryAllByTestId t) (renderText m)) = []"
  by (cases "msg_text m") (simp_all add: renderText_def)

lemma query_renderReactions:
  "t \<noteq> ''reaction-list'' \<Longrightarrow> t \<noteq> ''reaction-selector'' \<Longrightarrow>
     concat (map (queryAllByTestId t) (renderReactions m st)) = []"
  by (simp add: renderReactions_def)

lemma query_list_renderReactions:
  "concat (map (queryAllByTestId ''reaction-list'') (renderReactions m st)) =
     (if latest_reactions m \<noteq> [] then [Node ''reaction-list'' [] []] else [])"
  by (simp add: renderReactions_def)

lemma query_selector_renderReactions:
  "concat (map (queryAllByTestId ''reaction-selector'') (renderReactions m st)) =
     (if selector_shown st then [Node ''reaction-selector'' [] []] else [])"
  by (simp add: renderReactions_def)

lemma query_actions_suppressed:
  "msg_type (message props) = ''error'' \<or> msg_type (message props) = ''system'' \<or>
   msg_type (message props) = ''ephemeral'' \<or> msg_status (message props) = ''sending'' \<or>
   msg_status (message props) = ''failed'' \<Longrightarrow> renderOptions props = []"
  by (simp add: renderOptions_def Let_def)

text \<open>What a query finds in the output of the component, branch by branch.\<close>

lemma queryAll_MessageCommerce:
  "queryAll t (MessageCommerce props st) =
     (if nonContent (message props) \<or> deleted_at (message props) \<noteq> None then []
      else (if t = ''message-commerce-wrapper''
            then [Node ''message-commerce-wrapper'' (wrapper_classes props)
                   (renderAvatar props @ renderOptions props @ renderAttachments (message props)
                    @ renderText (message props) @ renderReactions (message props) st)]
            else [])
           @ concat (map (queryAllByTestId t) (renderAvatar props))
           @ concat (map (queryAllByTestId t) (renderOptions props))
           @ concat (map (queryAllByTestId t) (renderAttachments (message props)))
           @ concat (map (queryAllByTestId t) (renderText (message props)))
           @ concat (map (queryAllByTestId t) (renderReactions (message props) st)))"
  by (simp add: MessageCommerce_def queryAll_def Let_def split: option.splits)

text \<open>
  C4. For every message whose type is \<open>message.read\<close> or \<open>message.date\<close> the component
  renders the empty output.
\<close>

theorem MessageCommerce_nonContent_empty:
  "msg_type (message props) = ''message.read'' \<or> msg_type (message props) = ''message.date''
     \<Longrightarrow> MessageCommerce props st = None"
  by (simp add: MessageCommerce_def nonContent_def Let_def)

theorem MessageCommerce_nonContent_empty_witness:
  "msg_type (message (renderProps readReceipt)) = ''message.read''
   \<and> MessageCommerce (renderProps readReceipt) initial_state = None"
proof -
  have h: "msg_type (message (renderProps readReceipt)) = ''message.read'' \<or>
           msg_type (message (renderProps readReceipt)) = ''message.date''"
    by (simp add: renderProps_def readReceipt_def)
  from MessageCommerce_nonContent_empty[OF h] show ?thesis
    by (simp add: renderProps_def readReceipt_def)
qed

text \<open>
  C5. For every message, a rendered wrapper carries the right-alignment modifier exactly
  when the author is the current session user, and the left-alignment modifier exactly
  when not; the wrapper is rendered, once, for every message that is neither of a
  non-content kind nor deleted.
\<close>

theorem MessageCommerce_alignment:
  "(\<forall>n \<in> set (queryAll ''message-commerce-wrapper'' (MessageCommerce props st)).
      \<exists>cls kids. n = Node ''message-commerce-wrapper'' cls kids
        \<and> (''--right'' \<in> set cls \<longleftrightarrow>
             user_id (msg_user (message props)) = user_id (client_user (session props)))
        \<and> (''--left'' \<in> set cls \<longleftrightarrow>
             user_id (msg_user (message props)) \<noteq> user_id (client_user (session props))))
   \<and> (\<not> nonContent (message props) \<and> deleted_at (message props) = None \<longrightarrow>
        length (queryAll ''message-commerce-wrapper'' (MessageCommerce props st)) = 1)"
proof -
  have cls: "(''--right'' \<in> set (wrapper_classes props) \<longleftrightarrow> isMine props)
     \<and> (''--left'' \<in> set (wrapper_classes props) \<longleftrightarrow> \<not> isMine props)"
    by (cases "groupStyle props"; cases "the (groupStyle props)")
       (simp_all add: wrapper_classes_def Let_def)
  have q: "queryAll ''message-commerce-wrapper'' (MessageCommerce props st) =
     (if nonContent (message props) \<or> deleted_at (message props) \<noteq> None then []
      else [Node ''message-commerce-wrapper'' (wrapper_classes props)
                   (renderAvatar props @ renderOptions props @ renderAttachments (message props)
                    @ renderText (message props) @ renderReactions (message props) st)])"
    by (simp add: queryAll_MessageCommerce query_renderAvatar query_renderOptions
          query_renderAttachments query_renderText query_renderReactions)
  show ?thesis
    using cls by (simp add: q isMine_def)
qed

theorem MessageCommerce_alignment_witness:
  "(\<exists>cls kids.
      queryAll ''message-commerce-wrapper''
        (MessageCommerce (renderProps (generateMessage alice)) initial_state) =
        [Node ''message-commerce-wrapper'' cls kids]
      \<and> ''--right'' \<in> set cls \<and> ''--left'' \<notin> set cls)
   \<and> (\<exists>cls kids.
      queryAll ''message-commerce-wrapper''
        (MessageCommerce (renderProps (generateMessage bob)) initial_state) =
        [Node ''message-commerce-wrapper'' cls kids]
      \<and> ''--left'' \<in> set cls \<and> ''--right'' \<notin> set cls)"
  using MessageCommerce_alignment[of "renderProps (generateMessage alice)" initial_state]
        MessageCommerce_alignment[of "renderProps (generateMessage bob)" initial_state]
  by (simp add: queryAll_MessageCommerce renderProps_def generateMessage_def alice_def bob_def
        nonContent_def query_renderAvatar query_renderOptions query_renderAttachments
        query_renderText query_renderReactions)

text \<open>
  C6. For every message whose type is \<open>error\<close>, \<open>system\<close> or \<open>ephemeral\<close>, or whose status
  is \<open>sending\<close> or \<open>failed\<close>, the component renders no action affordances, whatever the
  other props and the local state are.
\<close>

theorem MessageCommerce_no_actions:
  assumes "msg_type (message props) = ''error'' \<or> msg_type (message props) = ''system'' \<or>
     msg_type (message props) = ''ephemeral'' \<or> msg_status (message props) = ''sending'' \<or>
     msg_status (message props) = ''failed''"
  shows "queryAll ''message-commerce-actions'' (MessageCommerce props st) = []"
  by (simp add: queryAll_MessageCommerce query_actions_suppressed[OF assms]
        query_renderAvatar query_renderAttachments query_renderText query_renderReactions)

theorem MessageCommerce_no_actions_witness:
  "msg_status (message ((renderProps failedMessage)\<lparr>actions_permitted := True\<rparr>)) = ''failed''
   \<and> queryAll ''message-commerce-actions''
        (MessageCommerce ((renderProps failedMessage)\<lparr>actions_permitted := True\<rparr>) initial_state) = []"
proof -
  let ?p = "(renderProps failedMessage)\<lparr>actions_permitted := True\<rparr>"
  have st: "msg_status (message ?p) = ''failed''"
    by (simp add: renderProps_def failedMessage_def)
  then have h: "msg_type (message ?p) = ''error'' \<or> msg_type (message ?p) = ''system'' \<or>
     msg_type (message ?p) = ''ephemeral'' \<or> msg_status (message ?p) = ''sending'' \<or>
     msg_status (message ?p) = ''failed''"
    by simp
  from st MessageCommerce_no_actions[OF h] show ?thesis by simp
qed

text \<open>
  C7, as the gates allow it. For every message with zero reactions and no text, no
  reaction list renders. For every message with at least one reaction that is neither of
  a non-content kind (\<open>message.read\<close>, \<open>message.date\<close>) nor deleted, the reaction-list
  summary renders, the full selector is absent at first, and a click on the summary
  reveals the selector.
\<close>

theorem MessageCommerce_reactions:
  "(latest_reactions (message props) = [] \<and> \<not> hasText (message props) \<longrightarrow>
      queryAll ''reaction-list'' (MessageCommerce props st) = [])
   \<and> (latest_reactions (message props) \<noteq> [] \<and> \<not> nonContent (message props)
        \<and> deleted_at (message props) = None \<longrightarrow>
        queryAll ''reaction-list'' (MessageCommerce props initial_state) \<noteq> []
        \<and> queryAll ''reaction-selector'' (MessageCommerce props initial_state) = []
        \<and> (\<exists>st'. click_reaction_list props initial_state = Some st'
              \<and> queryAll ''reaction-selector'' (MessageCommerce props st') \<noteq> []))"
  by (simp add: click_reaction_list_def queryAll_MessageCommerce query_renderAvatar
        query_renderOptions query_renderAttachments query_renderText
        query_list_renderReactions query_selector_renderReactions initial_state_def)

theorem MessageCommerce_reactions_witness:
  "latest_reactions (message (renderProps reactedMessage)) \<noteq> []
   \<and> queryAll ''reaction-list'' (MessageCommerce (renderProps reactedMessage) initial_state) \<noteq> []
   \<and> queryAll ''reaction-selector'' (MessageCommerce (renderProps reactedMessage) initial_state) = []
   \<and> (\<exists>st'. click_reaction_list (renderProps reactedMessage) initial_state = Some st'
         \<and> queryAll ''reaction-selector'' (MessageCommerce (renderProps reactedMessage) st') \<noteq> [])
   \<and> latest_reactions (message (renderProps failedMessage)) = []
   \<and> queryAll ''reaction-list'' (MessageCommerce (renderProps failedMessage) initial_state) = []"
proof -
  have h1: "latest_reactions (message (renderProps reactedMessage)) \<noteq> []
      \<and> \<not> nonContent (message (renderProps reactedMessage))
      \<and> deleted_at (message (renderProps reactedMessage)) = None"
    by (simp add: renderProps_def reactedMessage_def generateMessage_def nonContent_def)
  have h2: "latest_reactions (message (renderProps failedMessage)) = []
      \<and> \<not> hasText (message (renderProps failedMessage))"
    by (simp add: renderProps_def failedMessage_def generateMessage_def hasText_def)
  from h1 h2
    MessageCommerce_reactions[of "renderProps reactedMessage" initial_state]
    MessageCommerce_reactions[of "renderProps failedMessage" initial_state]
  show ?thesis by blast
qed

text \<open>
  C7 as stated fails on the two gates: a read receipt and a deleted message that carry a
  reaction render no reaction list.
\<close>

theorem MessageCommerce_reactions_counterexample:
  "latest_reactions (message (renderProps readReceipt)) \<noteq> []
   \<and> queryAll ''reaction-list'' (MessageCommerce (renderProps readReceipt) initial_state) = []
   \<and> latest_reactions (message (renderProps deletedMessage)) \<noteq> []
   \<and> queryAll ''reaction-list'' (MessageCommerce (renderProps deletedMessage) initial_state) = []"
  by (simp add: queryAll_MessageCommerce renderProps_def readReceipt_def deletedMessage_def
        generateMessage_def nonContent_def)

section \<open>The cases of the test suite\<close>

text \<open>
  The model agrees with the assertions of the test suite that bear on the properties
  above: nothing for a read receipt or a date separator, the override for a deleted
  message, the alignment of Alice's and Bob's messages, the reaction list and the
  selector after a click.
\<close>

lemma test_message_read_empty:
  "MessageCommerce (renderProps ((generateMessage alice)\<lparr>msg_type := ''message.read''\<rparr>)) initial_state = None"
  by (simp add: MessageCommerce_def renderProps_def nonContent_def Let_def)

lemma test_message_date_empty:
  "MessageCommerce (renderProps ((generateMessage alice)\<lparr>msg_type := ''message.date''\<rparr>)) initial_state = None"
  by (simp add: MessageCommerce_def renderProps_def nonContent_def Let_def)

lemma test_custom_deleted:
  "MessageCommerce ((renderProps ((generateMessage alice)\<lparr>deleted_at := Some 1\<rparr>))\<lparr>MessageDeleted := Some ()\<rparr>)
     initial_state = Some (Override ())"
  by (simp add: MessageCommerce_def renderProps_def generateMessage_def nonContent_def Let_def)

lemma test_reaction_list_click:
  "queryAll ''reaction-selector'' (MessageCommerce (renderProps reactedMessage) initial_state) = []
   \<and> click_reaction_list (renderProps reactedMessage) initial_state = Some \<lparr>selector_shown = True\<rparr>
   \<and> queryAll ''reaction-selector''
        (MessageCommerce (renderProps reactedMessage) \<lparr>selector_shown = True\<rparr>) =
       [Node ''reaction-selector'' [] []]"
  by (simp add: click_reaction_list_def queryAll_MessageCommerce renderProps_def
        reactedMessage_def generateMessage_def nonContent_def initial_state_def
        query_renderAvatar query_renderOptions query_renderAttachments query_renderText
        query_list_renderReactions query_selector_renderReactions)

end
